theory Spec2Isabelle
  imports Main "HOL-Library.AList"
begin

section \<open>Go values shared by both packages\<close>

subsection \<open>Errors\<close>

text \<open>
  A Go \<^verbatim>\<open>error\<close> value. The sentinels are the package variables
  \<^verbatim>\<open>context.Canceled\<close>, \<^verbatim>\<open>context.DeadlineExceeded\<close>, \<^verbatim>\<open>fs.ErrNotExist\<close>,
  \<^verbatim>\<open>mapstr.ErrKeyNotFound\<close> and \<^verbatim>\<open>cgroup.ErrCgroupsMissing\<close>; \<open>ErrorString s\<close> is an error without a wrapped cause whose
  text is \<open>s\<close>; \<open>Errorf p e\<close> is \<^verbatim>\<open>fmt.Errorf(p + "%w", e)\<close>, the only shape of
  \<^verbatim>\<open>fmt.Errorf\<close> with a cause that the two packages use. A nil error is \<open>None\<close> of
  \<open>go_error option\<close>.
\<close>

datatype go_error =
    Canceled
  | DeadlineExceeded
  | ErrNotExist
  | ErrKeyNotFound
  | ErrCgroupsMissing
  | ErrorString string
  | Errorf string go_error

fun Error :: "go_error \<Rightarrow> string" where
  "Error Canceled = ''context canceled''"
| "Error DeadlineExceeded = ''context deadline exceeded''"
| "Error ErrNotExist = ''file does not exist''"
| "Error ErrKeyNotFound = ''key not found''"
| "Error ErrCgroupsMissing = ''cgroups not found or unsupported by OS''"
| "Error (ErrorString s) = s"
| "Error (Errorf p e) = p @ Error e"

text \<open>\<^verbatim>\<open>errors.Is(err, target)\<close> for a sentinel target: walks the chain of wrapped causes.\<close>

fun errors_Is :: "go_error \<Rightarrow> go_error \<Rightarrow> bool" where
  "errors_Is (Errorf p e) target = (Errorf p e = target \<or> errors_Is e target)"
| "errors_Is e target = (e = target)"

subsection \<open>Time and logging\<close>

text \<open>
  A \<^verbatim>\<open>time.Time\<close> is the instant it denotes, in nanoseconds counted from the zero
  \<^verbatim>\<open>Time\<close>; a \<^verbatim>\<open>time.Duration\<close> is a number of nanoseconds. The clock is a parameter
  of every function that reads it.
\<close>

type_synonym time = int
type_synonym Duration = int

definition zeroTime :: time where
  "zeroTime = 0"

definition Add :: "time \<Rightarrow> Duration \<Rightarrow> time" where
  "Add t d = t + d"

definition Before :: "time \<Rightarrow> time \<Rightarrow> bool" where
  "Before t u = (t < u)"

definition Second :: Duration where
  "Second = 1000000000"

definition Minute :: Duration where
  "Minute = 60 * Second"

text \<open>
  A call of the logger is recorded with its level and its message literal; the rendered
  arguments are left out.
\<close>

datatype loglevel = LDebug | LInfo | LWarn | LError

type_synonym log_entry = "loglevel \<times> string"

section \<open>Collaborators outside the two files\<close>

subsection \<open>mapstr.M\<close>

text \<open>
  The values a \<^verbatim>\<open>mapstr.M\<close> holds in these files: nil, booleans, integers, strings,
  a \<^verbatim>\<open>[]string\<close>, lists and nested maps. A map is an association list with distinct
  keys; \<^verbatim>\<open>m[k] = v\<close> is \<open>AList.update k v m\<close>.
\<close>

datatype val =
    VNil
  | VBool bool
  | VInt int
  | VStr string
  | VStrs "string list"
  | VList "val list"
  | VMap "(string \<times> val) list"

type_synonym M = "(string \<times> val) list"

text \<open>\<^verbatim>\<open>strings.IndexRune\<close>: the index of the first occurrence, if any.\<close>

fun IndexRune :: "string \<Rightarrow> char \<Rightarrow> nat option" where
  "IndexRune [] c = None"
| "IndexRune (x # xs) c = (if x = c then Some 0 else map_option Suc (IndexRune xs c))"

lemma IndexRune_Some_length: "IndexRune key c = Some idx \<Longrightarrow> idx < length key"
  by (induction key arbitrary: idx) (auto split: if_splits)

definition tryToMapStr :: "val \<Rightarrow> go_error + M" where
  "tryToMapStr v = (case v of VMap m \<Rightarrow> Inr m | _ \<Rightarrow> Inl (ErrorString ''expected map''))"

text \<open>
  \<^verbatim>\<open>M.GetValue\<close> and \<^verbatim>\<open>M.Put\<close> of the mapstr library, both written over its
  \<^verbatim>\<open>mapFind\<close>: the key is looked up as it is first, and only then split at its first dot
  to descend into the sub-map; \<open>Put\<close> creates the sub-maps that are missing. \<open>Put\<close>
  returns the map after the write (the library returns the old value, which no caller
  here reads).
\<close>

function GetValue :: "M \<Rightarrow> string \<Rightarrow> go_error + val" where
  "GetValue data key =
     (case map_of data key of
        Some v \<Rightarrow> Inr v
      | None \<Rightarrow>
          (case IndexRune key CHR ''.'' of
             None \<Rightarrow> Inl ErrKeyNotFound
           | Some idx \<Rightarrow>
               (case map_of data (take idx key) of
                  None \<Rightarrow> Inl ErrKeyNotFound
                | Some d \<Rightarrow>
                    (case tryToMapStr d of
                       Inl e \<Rightarrow> Inl e
                     | Inr sub \<Rightarrow> GetValue sub (drop (Suc idx) key)))))"
  by pat_completeness auto
termination
  by (relation "measure (\<lambda>(data, key). length key)")
     (auto dest: IndexRune_Some_length)

function Put :: "M \<Rightarrow> string \<Rightarrow> val \<Rightarrow> go_error + M" where
  "Put data key v =
     (case map_of data key of
        Some old \<Rightarrow> Inr (AList.update key v data)
      | None \<Rightarrow>
          (case IndexRune key CHR ''.'' of
             None \<Rightarrow> Inr (AList.update key v data)
           | Some idx \<Rightarrow>
               (case map_of data (take idx key) of
                  None \<Rightarrow>
                    (case Put [] (drop (Suc idx) key) v of
                       Inl e \<Rightarrow> Inl e
                     | Inr sub \<Rightarrow> Inr (AList.update (take idx key) (VMap sub) data))
                | Some d \<Rightarrow>
                    (case tryToMapStr d of
                       Inl e \<Rightarrow> Inl e
                     | Inr m \<Rightarrow>
                         (case Put m (drop (Suc idx) key) v of
                            Inl e \<Rightarrow> Inl e
                          | Inr sub \<Rightarrow>
                              Inr (AList.update (take idx key) (VMap sub) data))))))"
  by pat_completeness auto
termination
  by (relation "measure (\<lambda>(data, key, v). length key)")
     (auto dest: IndexRune_Some_length)

declare GetValue.simps [simp del]
declare Put.simps [simp del]

subsection \<open>common.Cache\<close>

text \<open>
  Modelled from the spec: \<^verbatim>\<open>common.Cache\<close> (libbeat/common), with
  \<^verbatim>\<open>NewCacheWithRemovalListener\<close>, \<^verbatim>\<open>StartJanitor\<close>, \<^verbatim>\<open>StopJanitor\<close>, \<^verbatim>\<open>Get\<close> and
  \<^verbatim>\<open>Put\<close>, is not in the two files. The spec's cache holds entries of key, value and
  insertion time; \<open>Get\<close> is a lookup that leaves the cache as it is; \<open>Put\<close> inserts or
  overwrites and resets the entry's age; the janitor, once started, sweeps all entries,
  evicts those older than the time-to-live and calls the removal listener once for each
  evicted entry; a maximum entry count evicts the oldest entries first when it is
  exceeded. Here the entries are kept newest first, the capacity is reclaimed by the
  sweep, and the calls of the removal listener are the list that the sweep returns. The
  call sites show \<open>Get\<close> returning one value that is nil when the key is not found:
  \<open>None\<close> here.
\<close>

record ('k, 'v) Cache =
  timeout :: Duration
  capacity :: nat
  elements :: "('k \<times> 'v \<times> time) list"
  janitor :: "Duration option"

definition NewCacheWithRemovalListener :: "Duration \<Rightarrow> nat \<Rightarrow> ('k, 'v) Cache" where
  "NewCacheWithRemovalListener d n =
     \<lparr>timeout = d, capacity = n, elements = [], janitor = None\<rparr>"

definition StartJanitor :: "('k, 'v) Cache \<Rightarrow> Duration \<Rightarrow> ('k, 'v) Cache" where
  "StartJanitor c interval = c\<lparr>janitor := Some interval\<rparr>"

definition StopJanitor :: "('k, 'v) Cache \<Rightarrow> ('k, 'v) Cache" where
  "StopJanitor c = c\<lparr>janitor := None\<rparr>"

definition Cache_Get :: "('k, 'v) Cache \<Rightarrow> 'k \<Rightarrow> 'v option \<times> ('k, 'v) Cache" where
  "Cache_Get c k = (map_option fst (map_of (elements c) k), c)"

definition Cache_Put :: "('k, 'v) Cache \<Rightarrow> time \<Rightarrow> 'k \<Rightarrow> 'v \<Rightarrow> ('k, 'v) Cache" where
  "Cache_Put c now k v =
     c\<lparr>elements := (k, v, now) # filter (\<lambda>e. fst e \<noteq> k) (elements c)\<rparr>"

definition expired :: "('k, 'v) Cache \<Rightarrow> time \<Rightarrow> 'k \<times> 'v \<times> time \<Rightarrow> bool" where
  "expired c now e = (timeout c < now - snd (snd e))"

text \<open>One sweep: the calls of the removal listener, and the cache after the sweep.\<close>

definition CleanUp :: "('k, 'v) Cache \<Rightarrow> time \<Rightarrow> ('k \<times> 'v) list \<times> ('k, 'v) Cache" where
  "CleanUp c now =
     (let dead = filter (expired c now) (elements c);
          live = filter (\<lambda>e. \<not> expired c now e) (elements c);
          kept = take (capacity c) live;
          over = drop (capacity c) live
      in (map (\<lambda>e. (fst e, fst (snd e))) (dead @ over), c\<lparr>elements := kept\<rparr>))"

text \<open>The janitor's turn at time \<open>now\<close>: a sweep when the janitor runs, nothing otherwise.\<close>

definition janitorRun :: "('k, 'v) Cache \<Rightarrow> time \<Rightarrow> ('k \<times> 'v) list \<times> ('k, 'v) Cache" where
  "janitorRun c now = (if janitor c = None then ([], c) else CleanUp c now)"

text \<open>Histories of a cache: writes, reads and turns of the janitor.\<close>

datatype ('k, 'v) cache_op = OpPut time 'k 'v | OpGet 'k | OpJanitor time

fun apply_op :: "('k, 'v) Cache \<Rightarrow> ('k, 'v) cache_op \<Rightarrow> ('k, 'v) Cache" where
  "apply_op c (OpPut now k v) = Cache_Put c now k v"
| "apply_op c (OpGet k) = snd (Cache_Get c k)"
| "apply_op c (OpJanitor now) = snd (janitorRun c now)"

definition run_ops :: "('k, 'v) Cache \<Rightarrow> ('k, 'v) cache_op list \<Rightarrow> ('k, 'v) Cache" where
  "run_ops c ops = foldl apply_op c ops"

text \<open>
  An operation that is a read, or a turn of the janitor no later than \<open>ttl\<close> after \<open>t0\<close>.
\<close>

fun within :: "time \<Rightarrow> Duration \<Rightarrow> ('k, 'v) cache_op \<Rightarrow> bool" where
  "within t0 ttl (OpPut now k v) = False"
| "within t0 ttl (OpGet k) = True"
| "within t0 ttl (OpJanitor now) = (now - t0 \<le> ttl)"

subsection \<open>Types of the docker packages\<close>

text \<open>
  \<^verbatim>\<open>docker.Container\<close> of the autodiscover library, its labels in the order in which
  the loop of Run visits them; the fields of the processor's \<^verbatim>\<open>Config\<close> that
  add_docker_metadata.go reads (the declaration is in another file of the package);
  \<^verbatim>\<open>cgroup.PathList\<close> as the controller paths that \<^verbatim>\<open>Flatten\<close> returns.
\<close>

record Container =
  ID :: string
  Name :: string
  Image :: string
  Labels :: "(string \<times> string) list"

typedecl TLSConfig

record DockerConfig =
  Host :: string
  TLS :: "TLSConfig option"
  MatchShortID :: bool
  MatchSource :: bool
  SourceIndex :: int
  HostFS :: string
  Fields :: "string list"
  MatchPIDs :: "string list"
  DeDot :: bool

type_synonym PathList = "string list"

subsection \<open>beat.Event\<close>

text \<open>
  Modelled from the spec: \<^verbatim>\<open>beat.Event\<close> and its methods \<^verbatim>\<open>SetID\<close>, \<^verbatim>\<open>GetValue\<close> and
  \<^verbatim>\<open>PutValue\<close> (libbeat/beat) are not in the two files. The spec's event carries
  fields, a timestamp and an optional explicit identifier; \<open>SetID\<close> sets the identifier,
  \<open>Event_GetValue\<close> and \<open>PutValue\<close> read and write the fields by dotted key, the latter
  returning the event after the write and the error of the write.
\<close>

record Event =
  Timestamp :: time
  Fields :: M
  ID :: "string option"

definition SetID :: "Event \<Rightarrow> string \<Rightarrow> Event" where
  "SetID e i = e\<lparr>ID := Some i\<rparr>"

definition Event_GetValue :: "Event \<Rightarrow> string \<Rightarrow> go_error + val" where
  "Event_GetValue e key = GetValue (Fields e) key"

definition PutValue :: "Event \<Rightarrow> string \<Rightarrow> val \<Rightarrow> Event \<times> go_error option" where
  "PutValue e key v =
     (case Put (Fields e) key v of
        Inl err \<Rightarrow> (e, Some err)
      | Inr m \<Rightarrow> (e\<lparr>Fields := m\<rparr>, None))"

section \<open>x-pack/filebeat/input/o365audit/input.go\<close>

subsection \<open>Checkpoints and the cursor\<close>

text \<open>
  The declaration of \<^verbatim>\<open>checkpoint\<close> is not in input.go. The record has the three fields
  that input.go reads or writes; the fields that the declaration may have besides them are
  the extension part of the record scheme, so that every function below is defined for
  whatever the declaration adds. \<open>zeroCheckpoint z\<close> is the zero value, \<open>z\<close> the zero value
  of the extension.
\<close>

record checkpoint =
  Timestamp :: time
  Line :: int
  StartTime :: time

definition zeroCheckpoint :: "'a \<Rightarrow> 'a checkpoint_scheme" where
  "zeroCheckpoint z = \<lparr>Timestamp = zeroTime, Line = 0, StartTime = zeroTime, \<dots> = z\<rparr>"

text \<open>
  \<^verbatim>\<open>cursor.Cursor\<close> as initCheckpoint uses it: \<open>IsNew\<close>, and \<open>Unpack\<close>, which decodes
  the stored state into the checkpoint it is given and returns an error or nil together
  with what it left in the checkpoint.
\<close>

record 'a cursor =
  IsNew :: bool
  Unpack :: "'a checkpoint_scheme \<Rightarrow> go_error option \<times> 'a checkpoint_scheme"

definition msgNoSavedState :: string where
  "msgNoSavedState = ''No saved state found. Will fetch events for the last %v.''"

definition msgErrorLoading :: string where
  "msgErrorLoading = ''Error loading saved state. Will fetch all retained events. ''
     @ ''Depending on max_retention, this can cause event loss or duplication.''"

definition msgRetentionExceeded :: string where
  "msgRetentionExceeded = ''Last update exceeds the retention limit. ''
     @ ''Probably some events have been lost.''"

text \<open>
  initCheckpoint (input.go, 203-234). \<open>now\<close> is \<^verbatim>\<open>time.Now().UTC()\<close>. The result is the
  checkpoint returned and the log calls made, in order.
\<close>

definition initCheckpoint ::
  "time \<Rightarrow> 'a \<Rightarrow> 'a cursor \<Rightarrow> Duration \<Rightarrow> 'a checkpoint_scheme \<times> log_entry list" where
  "initCheckpoint now z c maxRetention =
     (let cp0 = zeroCheckpoint z;
          retentionLimit = Add now (- maxRetention);
          (cp, lg) =
            (if IsNew c
             then (cp0\<lparr>Timestamp := retentionLimit\<rparr>, [(LInfo, msgNoSavedState)])
             else (case Unpack c cp0 of
                     (None, cp1) \<Rightarrow> (cp1, [])
                   | (Some err, cp1) \<Rightarrow>
                       (cp1\<lparr>Timestamp := retentionLimit\<rparr>, [(LError, msgErrorLoading)])))
      in if Before (Timestamp cp) retentionLimit
         then (cp\<lparr>Timestamp := retentionLimit\<rparr>, lg @ [(LWarn, msgRetentionExceeded)])
         else (cp, lg))"

text \<open>
  The checkpoint as the cursor holds it when initCheckpoint starts to reconcile it: the
  zero value for a new cursor, otherwise what \<open>Unpack\<close> left.
\<close>

definition loaded :: "'a \<Rightarrow> 'a cursor \<Rightarrow> 'a checkpoint_scheme" where
  "loaded z c = (if IsNew c then zeroCheckpoint z else snd (Unpack c (zeroCheckpoint z)))"

text \<open>
  The start of \<^verbatim>\<open>o365input.run\<close> (input.go, 185-197): the first action of the poller.
  \<^verbatim>\<open>makeListBlob\<close> and \<^verbatim>\<open>WithStartTime\<close> are declared outside input.go; they are kept
  as the constructors of the action they build.
\<close>

datatype 'a action =
    makeListBlob "'a checkpoint_scheme"
  | WithStartTime "'a action" time

definition run_action :: "time \<Rightarrow> 'a \<Rightarrow> 'a cursor \<Rightarrow> Duration \<Rightarrow> 'a action" where
  "run_action now z c maxRetention =
     (let start = fst (initCheckpoint now z c maxRetention);
          action = makeListBlob start
      in if Line start > 0 then WithStartTime action (StartTime start) else action)"

subsection \<open>Records to events\<close>

text \<open>
  The fields of \<^verbatim>\<open>Config\<close> and \<^verbatim>\<open>APIConfig\<close> that input.go reads, the input, the
  stream, and of \<^verbatim>\<open>apiEnvironment\<close> the fields that are data (its callback, status
  reporter, logger and clock are parameters of the functions that call them).
\<close>

record APIConfig =
  MaxRetention :: Duration
  ErrorRetryInterval :: Duration
  SetIDFromAuditRecord :: bool
  PreserveOriginalEvent :: bool

record Config =
  TenantID :: "string list"
  ContentType :: "string list"
  API :: APIConfig

record o365input =
  config :: Config

record stream =
  tenantID :: string
  contentType :: string

record apiEnvironment =
  tenantID :: string
  contentType :: string
  config :: APIConfig

definition fieldsPrefix :: string where
  "fieldsPrefix = ''o365audit''"

text \<open>
  Modelled from the spec: \<^verbatim>\<open>getString\<close> and \<^verbatim>\<open>getDateKey\<close> are declared outside
  input.go. \<open>getString\<close> returns the string stored under a key of the document and an
  error when the key is absent or holds something else; \<open>getDateKey\<close> parses that string
  as the record's declared creation time. The table of accepted layouts,
  \<^verbatim>\<open>apiDateFormats\<close>, is the parameter \<open>formats\<close>: its parser.
\<close>

definition getString :: "M \<Rightarrow> string \<Rightarrow> go_error + string" where
  "getString m key =
     (case GetValue m key of
        Inl err \<Rightarrow> Inl err
      | Inr (VStr s) \<Rightarrow> Inr s
      | Inr _ \<Rightarrow> Inl (ErrorString (key @ '' is not a string'')))"

definition getDateKey :: "M \<Rightarrow> string \<Rightarrow> (string \<Rightarrow> go_error + time) \<Rightarrow> go_error + time" where
  "getDateKey m key formats =
     (case getString m key of
        Inl err \<Rightarrow> Inl err
      | Inr s \<Rightarrow> formats s)"

text \<open>
  \<^verbatim>\<open>apiEnvironment.toBeatEvent\<close> (input.go, 272-303). \<open>now\<close> is \<^verbatim>\<open>time.Now()\<close>, read
  when the creation time does not parse; \<open>raw\<close> is the record's JSON text.
\<close>

definition toBeatEvent ::
  "(string \<Rightarrow> go_error + time) \<Rightarrow> time \<Rightarrow> apiEnvironment \<Rightarrow> string \<Rightarrow> M \<Rightarrow> Event" where
  "toBeatEvent apiDateFormats now env raw doc =
     (let (ts, errs) =
            (case getDateKey doc ''CreationTime'' apiDateFormats of
               Inr t \<Rightarrow> (t, [])
             | Inl err \<Rightarrow> (now, [Errorf ''failed parsing CreationTime: '' err]));
          b0 = \<lparr>Event.Timestamp = ts, Fields = [(fieldsPrefix, VMap doc)], ID = None\<rparr>;
          b1 = (if SetIDFromAuditRecord (config env)
                then (case getString doc ''Id'' of
                        Inr i \<Rightarrow> if length i > 0 then SetID b0 i else b0
                      | Inl err \<Rightarrow> b0)
                else b0);
          b2 = (if PreserveOriginalEvent (config env)
                then fst (PutValue b1 ''event.original'' (VStr raw))
                else b1);
          b3 = (if length errs > 0
                then fst (PutValue b2 ''error.message'' (VStrs (map Error errs)))
                else b2)
      in b3)"

subsection \<open>The outer loop of the input\<close>

text \<open>
  What \<^verbatim>\<open>o365input.Run\<close> does to the outside, in order: a call of the status reporter
  (\<^verbatim>\<open>noopReporter\<close> when the context has none), a call of \<^verbatim>\<open>inp.run\<close>, a call of
  \<^verbatim>\<open>pub.Publish\<close> with the event and a nil cursor, a call of the logger, and
  \<^verbatim>\<open>timed.Wait\<close>, which returns when the interval has passed or the context is done.
\<close>

datatype Status = Starting | Running | Degraded | Failed

datatype effect =
    UpdateStatus Status string
  | CallRun
  | Publish Event
  | Log loglevel string
  | Wait Duration

text \<open>
  What one turn of the loop reads from outside: \<^verbatim>\<open>ctx.Cancelation.Err()\<close> in the loop
  condition, the error of \<^verbatim>\<open>inp.run\<close>, \<^verbatim>\<open>ctx.Cancelation.Err()\<close> in the second case
  of the switch, the clock and the error of \<^verbatim>\<open>pub.Publish\<close>. Two error values are the
  same Go value when they are equal here.
\<close>

record iteration =
  cancelAtLoop :: "go_error option"
  runErr :: "go_error option"
  cancelAtCase :: "go_error option"
  clock :: time
  publishErr :: "go_error option"

datatype source = StreamSource stream | OtherSource

text \<open>The event of lines 129-135; the results of the two \<^verbatim>\<open>msg.Put\<close> are dropped.\<close>

definition errorEvent :: "time \<Rightarrow> go_error \<Rightarrow> Event" where
  "errorEvent now err =
     (let msg0 = [];
          msg1 = (case Put msg0 ''error.message'' (VStr (Error err)) of
                    Inr m \<Rightarrow> m | Inl e \<Rightarrow> msg0);
          msg2 = (case Put msg1 ''event.kind'' (VStr ''pipeline_error'') of
                    Inr m \<Rightarrow> m | Inl e \<Rightarrow> msg1)
      in \<lparr>Event.Timestamp = now, Fields = msg2, ID = None\<rparr>)"

text \<open>The body of the second case of the switch, lines 129-143.\<close>

definition retry :: "o365input \<Rightarrow> iteration \<Rightarrow> go_error \<Rightarrow> effect list" where
  "retry inp it err =
     [Publish (errorEvent (clock it) err)]
     @ (case publishErr it of
          None \<Rightarrow> []
        | Some perr \<Rightarrow>
            [UpdateStatus Degraded (''failed to publish error: '' @ Error perr),
             Log LError ''publisher.Publish failed: %v''])
     @ [UpdateStatus Degraded (Error err),
        Log LError ''Input failed: %v'',
        Log LInfo ''Restarting in %v'',
        Wait (ErrorRetryInterval (API (o365input.config inp)))]"

text \<open>
  The loop of lines 123-145 over the turns it is given, with the effects so far. The
  first component is \<open>Some r\<close> when Run has returned \<open>r\<close>, and \<open>None\<close> when the loop is
  still running after the last turn given.
\<close>

fun Run_loop ::
  "o365input \<Rightarrow> iteration list \<Rightarrow> effect list \<Rightarrow> go_error option option \<times> effect list" where
  "Run_loop inp [] tr = (None, tr)"
| "Run_loop inp (it # its) tr =
     (if cancelAtLoop it \<noteq> None then (Some None, tr)
      else (case runErr it of
              None \<Rightarrow> (Some None, tr @ [CallRun])
            | Some err \<Rightarrow>
                if errors_Is err Canceled then (Some None, tr @ [CallRun])
                else if Some err \<noteq> cancelAtCase it
                then Run_loop inp its (tr @ CallRun # retry inp it err)
                else Run_loop inp its (tr @ [CallRun])))"

text \<open>\<^verbatim>\<open>o365input.Run\<close> (input.go, 109-148).\<close>

definition Run ::
  "o365input \<Rightarrow> source \<Rightarrow> iteration list \<Rightarrow> go_error option option \<times> effect list" where
  "Run inp src its =
     (case src of
        OtherSource \<Rightarrow>
          (Some (Some (ErrorString ''source is not an O365 stream'')),
           [UpdateStatus Starting [], UpdateStatus Failed ''source is not an O365 stream''])
      | StreamSource s \<Rightarrow> Run_loop inp its [UpdateStatus Starting []])"

text \<open>Projections of a trace.\<close>

fun published :: "effect list \<Rightarrow> Event list" where
  "published [] = []"
| "published (Publish ev # tr) = ev # published tr"
| "published (x # tr) = published tr"

fun waits :: "effect list \<Rightarrow> Duration list" where
  "waits [] = []"
| "waits (Wait d # tr) = d # waits tr"
| "waits (x # tr) = waits tr"

fun statuses :: "effect list \<Rightarrow> (Status \<times> string) list" where
  "statuses [] = []"
| "statuses (UpdateStatus st m # tr) = (st, m) # statuses tr"
| "statuses (x # tr) = statuses tr"

text \<open>
  A turn that fails: the context is not done at the loop condition, and \<^verbatim>\<open>inp.run\<close>
  returns an error that neither is or wraps \<^verbatim>\<open>context.Canceled\<close> nor is the error the
  cancellation context reports.
\<close>

definition failing :: "iteration \<Rightarrow> bool" where
  "failing it =
     (cancelAtLoop it = None \<and>
      (case runErr it of
         None \<Rightarrow> False
       | Some err \<Rightarrow> \<not> errors_Is err Canceled \<and> Some err \<noteq> cancelAtCase it))"

text \<open>A turn in which \<^verbatim>\<open>inp.run\<close> returns nil or a cancellation error.\<close>

definition finished :: "iteration \<Rightarrow> bool" where
  "finished it =
     (cancelAtLoop it = None \<and>
      (case runErr it of None \<Rightarrow> True | Some err \<Rightarrow> errors_Is err Canceled))"

text \<open>The effects of a failing turn: the call of \<^verbatim>\<open>inp.run\<close>, then the second case.\<close>

definition turn :: "o365input \<Rightarrow> iteration \<Rightarrow> effect list" where
  "turn inp it = CallRun # retry inp it (the (runErr it))"

text \<open>
  A turn whose error is dropped: the context is not done at the loop condition, and
  \<^verbatim>\<open>inp.run\<close> returns an error that neither is nor wraps \<^verbatim>\<open>context.Canceled\<close> but is the
  error the cancellation context reports when the switch compares them, so that neither
  case of the switch is taken.
\<close>

definition dropped :: "iteration \<Rightarrow> bool" where
  "dropped it =
     (cancelAtLoop it = None \<and>
      (case runErr it of
         None \<Rightarrow> False
       | Some err \<Rightarrow> \<not> errors_Is err Canceled \<and> cancelAtCase it = Some err))"

text \<open>
  Sample values: a cursor without saved state, and a turn in which \<^verbatim>\<open>inp.run\<close> returns
  the deadline error of the cancellation context.
\<close>

definition newCursor :: "unit cursor" where
  "newCursor = \<lparr>IsNew = True, Unpack = (\<lambda>cp. (None, cp))\<rparr>"

definition turnContextDeadline :: iteration where
  "turnContextDeadline = \<lparr>cancelAtLoop = None, runErr = Some DeadlineExceeded,
                          cancelAtCase = Some DeadlineExceeded, clock = 60,
                          publishErr = None\<rparr>"

text \<open>Sample values: an input, a stream and four turns.\<close>

definition sampleInput :: o365input where
  "sampleInput =
     \<lparr>o365input.config =
        \<lparr>TenantID = [''t''], ContentType = [''Audit.General''],
         API = \<lparr>MaxRetention = 7, ErrorRetryInterval = 30, SetIDFromAuditRecord = False,
                PreserveOriginalEvent = False\<rparr>\<rparr>\<rparr>"

definition sampleStream :: stream where
  "sampleStream = \<lparr>stream.tenantID = ''t'', stream.contentType = ''Audit.General''\<rparr>"

definition turnBoom :: iteration where
  "turnBoom = \<lparr>cancelAtLoop = None, runErr = Some (ErrorString ''boom''),
               cancelAtCase = None, clock = 5, publishErr = None\<rparr>"

definition turnDeadline :: iteration where
  "turnDeadline = \<lparr>cancelAtLoop = None, runErr = Some DeadlineExceeded,
                   cancelAtCase = None, clock = 40,
                   publishErr = Some (ErrorString ''queue closed'')\<rparr>"

definition turnCanceled :: iteration where
  "turnCanceled = \<lparr>cancelAtLoop = None, runErr = Some (Errorf ''poll: '' Canceled),
                   cancelAtCase = None, clock = 50, publishErr = None\<rparr>"

definition turnDone :: iteration where
  "turnDone = \<lparr>cancelAtLoop = Some Canceled, runErr = None,
               cancelAtCase = Some Canceled, clock = 70, publishErr = None\<rparr>"

section \<open>libbeat/processors/add_docker_metadata/add_docker_metadata.go\<close>

definition cgroupCacheExpiration :: Duration where
  "cgroupCacheExpiration = 5 * Minute"

text \<open>The cache that lazyCgroupCacheInit builds (lines 140-141).\<close>

definition newCgroupCache :: "('k, 'v) Cache" where
  "newCgroupCache =
     StartJanitor (NewCacheWithRemovalListener cgroupCacheExpiration 100) (5 * Second)"

text \<open>
  That cache after the history \<open>ops\<close>, then \<open>Put(k, v)\<close> at time \<open>t0\<close>, then the
  operations \<open>mid\<close>.
\<close>

definition afterPut ::
  "('k, 'v) cache_op list \<Rightarrow> time \<Rightarrow> 'k \<Rightarrow> 'v \<Rightarrow> ('k, 'v) cache_op list \<Rightarrow> ('k, 'v) Cache" where
  "afterPut ops t0 k v mid = run_ops (Cache_Put (run_ops newCgroupCache ops) t0 k v) mid"

subsection \<open>The processor\<close>

text \<open>
  Functions of other packages that the processor calls and that are not modelled here:
  \<^verbatim>\<open>common.TryToInt\<close>, \<^verbatim>\<open>common.DeDot\<close>, \<^verbatim>\<open>safemapstr.Put\<close> and
  \<^verbatim>\<open>M.DeepUpdate\<close> (applied to a clone of its argument). They are parameters.
\<close>

record deps =
  common_TryToInt :: "val \<Rightarrow> int option"
  common_DeDot :: "string \<Rightarrow> string"
  safemapstr_Put :: "M \<Rightarrow> string \<Rightarrow> val \<Rightarrow> M"
  DeepUpdate :: "M \<Rightarrow> M \<Rightarrow> M"

text \<open>
  The struct of lines 60-71 without its logger (\<open>fields'\<close> is its \<^verbatim>\<open>fields\<close>). The watcher is its \<^verbatim>\<open>Container\<close>
  method, nil when no watcher was created; the source processor is its \<^verbatim>\<open>Run\<close>
  method, which returns the event it was given and an error or nil; the cgroup reader
  is its \<^verbatim>\<open>ProcessCgroupPaths\<close> method; the cache is nil until it is first needed.
\<close>

record addDockerMetadata =
  watcher :: "(string \<Rightarrow> Container option) option"
  fields' :: "string list"
  sourceProcessor :: "(Event \<Rightarrow> Event \<times> go_error option) option"
  pidFields :: "string list"
  cgroups :: "(int, string) Cache option"
  dedot :: bool
  dockerAvailable :: bool
  cgreader :: "int \<Rightarrow> PathList \<times> go_error option"

definition dockerContainerIDKey :: string where
  "dockerContainerIDKey = ''container.id''"

text \<open>
  What buildDockerMetadataProcessor obtains from outside: the unpacked configuration,
  the watcher constructor, the result of starting the watcher, the constructor of the
  extract_field processor (given the source index) and the constructor of the cgroup
  reader (given the host filesystem).
\<close>

record world =
  unpackConfig :: "go_error + DockerConfig"
  watcherConstructor ::
    "string \<Rightarrow> TLSConfig option \<Rightarrow> bool \<Rightarrow> go_error + (string \<Rightarrow> Container option)"
  watcherStart :: "go_error option"
  NewExtractField :: "int \<Rightarrow> go_error + (Event \<Rightarrow> Event \<times> go_error option)"
  initCgroupPaths :: "string \<Rightarrow> go_error + (int \<Rightarrow> PathList \<times> go_error option)"

text \<open>\<^verbatim>\<open>processors.NilCGReader\<close>: a reader that finds no cgroups.\<close>

definition NilCGReader :: "int \<Rightarrow> PathList \<times> go_error option" where
  "NilCGReader pid = ([], None)"

text \<open>buildDockerMetadataProcessor (lines 80-132).\<close>

definition buildDockerMetadataProcessor :: "world \<Rightarrow> go_error + addDockerMetadata" where
  "buildDockerMetadataProcessor w =
     (case unpackConfig w of
        Inl err \<Rightarrow> Inl (Errorf ''fail to unpack the add_docker_metadata configuration: '' err)
      | Inr cfg \<Rightarrow>
          (case (case watcherConstructor w (Host cfg) (TLS cfg) (MatchShortID cfg) of
                   Inl err \<Rightarrow> Inr (None, False)
                 | Inr wt \<Rightarrow>
                     (case watcherStart w of
                        Some err \<Rightarrow> Inl (Errorf ''failed to start watcher: '' err)
                      | None \<Rightarrow> Inr (Some wt, True))) of
             Inl e \<Rightarrow> Inl e
           | Inr (wat, avail) \<Rightarrow>
               (case (if MatchSource cfg
                      then (case NewExtractField w (SourceIndex cfg) of
                              Inl err \<Rightarrow> Inl err
                            | Inr sp \<Rightarrow> Inr (Some sp))
                      else Inr None) of
                  Inl e \<Rightarrow> Inl e
                | Inr src \<Rightarrow>
                    (case (case initCgroupPaths w (HostFS cfg) of
                             Inl err \<Rightarrow>
                               if errors_Is err ErrCgroupsMissing then Inr NilCGReader
                               else Inl (Errorf ''error creating cgroup reader: '' err)
                           | Inr rd \<Rightarrow> Inr rd) of
                       Inl e \<Rightarrow> Inl e
                     | Inr reader \<Rightarrow>
                         Inr \<lparr>watcher = wat, fields' = DockerConfig.Fields cfg,
                              sourceProcessor = src, pidFields = MatchPIDs cfg,
                              cgroups = None, dedot = DeDot cfg,
                              dockerAvailable = avail, cgreader = reader\<rparr>))))"

text \<open>
  What the processor does to the outside while it runs: a call of the logger, of the
  source processor, of \<^verbatim>\<open>Get\<close> and \<^verbatim>\<open>Put\<close> of the cache, of the cgroup reader (with
  whether it found the process, that is, did not answer \<^verbatim>\<open>fs.ErrNotExist\<close>), the creation
  of the cache with its janitor, and a call of the watcher.
\<close>

datatype call =
    DLog loglevel string
  | SourceRun
  | CacheGet int
  | ReadCgroups int bool
  | CacheInit
  | CachePut int string
  | WatcherContainer string

text \<open>lazyCgroupCacheInit (lines 134-143).\<close>

definition lazyCgroupCacheInit :: "addDockerMetadata \<Rightarrow> addDockerMetadata \<times> call list" where
  "lazyCgroupCacheInit d =
     (if cgroups d = None
      then (d\<lparr>cgroups := Some newCgroupCache\<rparr>,
            [DLog LDebug ''Initializing cgroup cache'', CacheInit])
      else (d, []))"

text \<open>getProcessCgroups (lines 297-306).\<close>

definition getProcessCgroups :: "addDockerMetadata \<Rightarrow> int \<Rightarrow> PathList \<times> go_error option" where
  "getProcessCgroups d pid =
     (case cgreader d pid of
        (cg, Some err) \<Rightarrow> (cg, Some (Errorf ''failed to read cgroups for pid=%v: '' err))
      | (cg, None) \<Rightarrow> if length cg = 0 then ([], Some ErrNotExist) else (cg, None))"

text \<open>
  The regular expression of line 308, a run of 64 word characters, and its leftmost
  match in a string.
\<close>

definition wordChar :: "char \<Rightarrow> bool" where
  "wordChar c =
     (let n = (of_char c :: nat)
      in (48 \<le> n \<and> n \<le> 57) \<or> (65 \<le> n \<and> n \<le> 90) \<or> n = 95 \<or> (97 \<le> n \<and> n \<le> 122))"

fun re_Find :: "string \<Rightarrow> string option" where
  "re_Find [] = None"
| "re_Find (c # cs) =
     (if 64 \<le> length (takeWhile wordChar (c # cs)) then Some (take 64 (c # cs))
      else re_Find cs)"

text \<open>getContainerIDFromCgroups (lines 314-323).\<close>

fun getContainerIDFromCgroups :: "PathList \<Rightarrow> string \<times> go_error option" where
  "getContainerIDFromCgroups [] = ([], None)"
| "getContainerIDFromCgroups (path # rest) =
     (case re_Find path of
        Some rs \<Rightarrow> (rs, None)
      | None \<Rightarrow> getContainerIDFromCgroups rest)"

text \<open>
  lookupContainerIDByPID (lines 249-293). The first loop, over the PID fields that are
  left, with the PIDs collected so far: it returns the cached container ID of the first
  PID that the cache holds, or all the PIDs.
\<close>

fun lookupCached ::
  "deps \<Rightarrow> addDockerMetadata \<Rightarrow> Event \<Rightarrow> string list \<Rightarrow> int list \<Rightarrow> call list \<Rightarrow>
     (string + int list) \<times> addDockerMetadata \<times> call list" where
  "lookupCached dp d event [] pids tr = (Inr pids, d, tr)"
| "lookupCached dp d event (field # rest) pids tr =
     (case Event_GetValue event field of
        Inl err \<Rightarrow> lookupCached dp d event rest pids tr
      | Inr v \<Rightarrow>
          (case common_TryToInt dp v of
             None \<Rightarrow>
               lookupCached dp d event rest pids
                 (tr @ [DLog LDebug ''field %v is not a PID (type=%T, value=%v)''])
           | Some pid \<Rightarrow>
               (case cgroups d of
                  None \<Rightarrow> lookupCached dp d event rest (pids @ [pid]) tr
                | Some c \<Rightarrow>
                    (case Cache_Get c pid of
                       (Some cid, c') \<Rightarrow>
                         (Inl cid, d\<lparr>cgroups := Some c'\<rparr>,
                          tr @ [CacheGet pid, DLog LDebug ''Using cached cgroups for pid=%v''])
                     | (None, c') \<Rightarrow>
                         lookupCached dp (d\<lparr>cgroups := Some c'\<rparr>) event rest (pids @ [pid])
                           (tr @ [CacheGet pid])))))"

text \<open>
  A PID whose cgroups the reader does not find: getProcessCgroups answers an error that
  is or wraps \<^verbatim>\<open>fs.ErrNotExist\<close>.
\<close>

definition missing :: "addDockerMetadata \<Rightarrow> int \<Rightarrow> bool" where
  "missing d pid =
     (case snd (getProcessCgroups d pid) of
        None \<Rightarrow> False
      | Some err \<Rightarrow> errors_Is err ErrNotExist)"

text \<open>The second loop, over the PIDs that are left.\<close>

fun lookupRead ::
  "time \<Rightarrow> addDockerMetadata \<Rightarrow> int list \<Rightarrow> call list \<Rightarrow>
     (string \<times> go_error option) \<times> addDockerMetadata \<times> call list" where
  "lookupRead now d [] tr = (([], None), d, tr)"
| "lookupRead now d (pid # rest) tr =
     (if missing d pid then lookupRead now d rest (tr @ [ReadCgroups pid False])
      else
        (let tr1 = tr @ [ReadCgroups pid True]
               @ (case snd (getProcessCgroups d pid) of
                    None \<Rightarrow> []
                  | Some err \<Rightarrow> [DLog LDebug ''failed to get cgroups for pid=%v: %v'']);
             (d1, tr2) = lazyCgroupCacheInit d;
             r = getContainerIDFromCgroups (fst (getProcessCgroups d pid))
         in (case cgroups d1 of
               None \<Rightarrow> (r, d1, tr1 @ tr2)
             | Some c \<Rightarrow>
                 (r, d1\<lparr>cgroups := Some (Cache_Put c now pid (fst r))\<rparr>,
                  tr1 @ tr2 @ [CachePut pid (fst r)]))))"

definition lookupContainerIDByPID ::
  "time \<Rightarrow> deps \<Rightarrow> addDockerMetadata \<Rightarrow> Event \<Rightarrow>
     (string \<times> go_error option) \<times> addDockerMetadata \<times> call list" where
  "lookupContainerIDByPID now dp d event =
     (case lookupCached dp d event (pidFields d) [] [] of
        (Inl cid, d1, tr) \<Rightarrow> ((cid, None), d1, tr)
      | (Inr pids, d1, tr) \<Rightarrow> lookupRead now d1 pids tr)"

text \<open>
  \<^verbatim>\<open>addDockerMetadata.Run\<close> (lines 145-225) in its stages. A stage gives \<open>Inl\<close> when
  Run returns from it and \<open>Inr\<close> when Run goes on. Lines 153-166: the container ID from
  the source path.
\<close>

definition fromSource ::
  "addDockerMetadata \<Rightarrow> Event \<Rightarrow> (Event \<times> call list) + (Event \<times> string \<times> call list)" where
  "fromSource d event =
     (case sourceProcessor d of
        None \<Rightarrow> Inr (event, [], [])
      | Some sp \<Rightarrow>
          (case GetValue (Event.Fields event) ''log.file.path'' of
             Inl err \<Rightarrow> Inr (event, [], [])
           | Inr logFilePath \<Rightarrow>
               if logFilePath = VNil then Inr (event, [], [])
               else
                 (case sp event of
                    (event1, Some err) \<Rightarrow>
                      Inl (event1,
                           [SourceRun,
                            DLog LDebug
                              ''Error while extracting container ID from source path: %v''])
                  | (event1, None) \<Rightarrow>
                      Inr (event1,
                           (case Event_GetValue event1 dockerContainerIDKey of
                              Inr (VStr cid) \<Rightarrow> cid
                            | _ \<Rightarrow> []),
                           [SourceRun]))))"

text \<open>Lines 169-178: the container ID from the PID fields.\<close>

definition fromPID ::
  "time \<Rightarrow> deps \<Rightarrow> addDockerMetadata \<Rightarrow> Event \<Rightarrow> string \<Rightarrow>
     (go_error \<times> addDockerMetadata \<times> call list)
     + (Event \<times> string \<times> addDockerMetadata \<times> call list)" where
  "fromPID now dp d event cid =
     (if cid = [] \<and> length (pidFields d) > 0
      then (case lookupContainerIDByPID now dp d event of
              ((i, Some err), d1, tr) \<Rightarrow> Inl (err, d1, tr)
            | ((i, None), d1, tr) \<Rightarrow>
                if i \<noteq> []
                then Inr (fst (PutValue event dockerContainerIDKey (VStr i)), i, d1, tr)
                else Inr (event, cid, d1, tr))
      else Inr (event, cid, d, []))"

text \<open>Lines 182-192: the first configured field that holds a string.\<close>

fun fromFields :: "Event \<Rightarrow> string list \<Rightarrow> string" where
  "fromFields event [] = []"
| "fromFields event (field # rest) =
     (case Event_GetValue event field of
        Inr (VStr strValue) \<Rightarrow> strValue
      | _ \<Rightarrow> fromFields event rest)"

text \<open>Lines 201-218: the metadata of a container; the results of the puts are dropped.\<close>

definition putDropped :: "M \<Rightarrow> string \<Rightarrow> val \<Rightarrow> M" where
  "putDropped m k v = (case Put m k v of Inr m1 \<Rightarrow> m1 | Inl err \<Rightarrow> m)"

fun containerLabels :: "deps \<Rightarrow> bool \<Rightarrow> (string \<times> string) list \<Rightarrow> M \<Rightarrow> M" where
  "containerLabels dp dd [] labels = labels"
| "containerLabels dp dd ((k, v) # rest) labels =
     containerLabels dp dd rest
       (if dd then putDropped labels (common_DeDot dp k) (VStr v)
        else safemapstr_Put dp labels k (VStr v))"

definition containerMeta :: "deps \<Rightarrow> bool \<Rightarrow> Container \<Rightarrow> M" where
  "containerMeta dp dd container =
     (let meta0 = [];
          meta1 = (if length (Labels container) > 0
                   then putDropped meta0 ''container.labels''
                          (VMap (containerLabels dp dd (Labels container) []))
                   else meta0);
          meta2 = putDropped meta1 ''container.id'' (VStr (Container.ID container));
          meta3 = putDropped meta2 ''container.image.name'' (VStr (Image container));
          meta4 = putDropped meta3 ''container.name'' (VStr (Name container))
      in meta4)"

text \<open>
  What a call of Run comes to: it returns an event (or nil) and an error (or nil), or it
  dereferences a nil watcher.
\<close>

datatype result = Returns "Event option" "go_error option" | Panics

definition addDockerMetadata_Run ::
  "time \<Rightarrow> deps \<Rightarrow> addDockerMetadata \<Rightarrow> Event \<Rightarrow> result \<times> addDockerMetadata \<times> call list" where
  "addDockerMetadata_Run now dp d event =
     (if \<not> dockerAvailable d then (Returns (Some event) None, d, [])
      else
        (case fromSource d event of
           Inl (event1, tr1) \<Rightarrow> (Returns (Some event1) None, d, tr1)
         | Inr (event1, cid1, tr1) \<Rightarrow>
             (case fromPID now dp d event1 cid1 of
                Inl (err, d2, tr2) \<Rightarrow>
                  (Returns None (Some (Errorf ''error reading container ID: '' err)), d2,
                   tr1 @ tr2)
              | Inr (event2, cid2, d2, tr2) \<Rightarrow>
                  (let cid3 = (if cid2 = [] \<and> length (fields' d2) > 0
                               then fromFields event2 (fields' d2) else cid2)
                   in if cid3 = [] then (Returns (Some event2) None, d2, tr1 @ tr2)
                      else
                        (case watcher d2 of
                           None \<Rightarrow> (Panics, d2, tr1 @ tr2)
                         | Some w \<Rightarrow>
                             (case w cid3 of
                                Some container \<Rightarrow>
                                  (Returns
                                     (Some (event2\<lparr>Event.Fields :=
                                        DeepUpdate dp (Event.Fields event2)
                                          (containerMeta dp (dedot d2) container)\<rparr>))
                                     None,
                                   d2, tr1 @ tr2 @ [WatcherContainer cid3])
                              | None \<Rightarrow>
                                  (Returns (Some event2) None, d2,
                                   tr1 @ tr2
                                   @ [WatcherContainer cid3,
                                      DLog LDebug ''Container not found: cid=%s''])))))))"

text \<open>
  A sequence of calls of Run on one processor, each with its clock reading and its event:
  the processor after the last call and all the calls made to the outside.
\<close>

fun RunAll ::
  "deps \<Rightarrow> addDockerMetadata \<Rightarrow> (time \<times> Event) list \<Rightarrow> addDockerMetadata \<times> call list" where
  "RunAll dp d [] = (d, [])"
| "RunAll dp d ((now, event) # rest) =
     (case addDockerMetadata_Run now dp d event of
        (r, d1, tr) \<Rightarrow> (case RunAll dp d1 rest of (d2, tr2) \<Rightarrow> (d2, tr @ tr2)))"

text \<open>
  Notions to state what the lookup does: the calls of the cgroup reader in a trace, with
  whether each found its process; the PIDs that the configured PID fields of an event
  hold, in the order of the fields; the container ID that the cache holds for the first
  of some PIDs that it knows; a processor whose cache, if it has one, has the parameters
  that lazyCgroupCacheInit gives it.
\<close>

fun reads :: "call list \<Rightarrow> (int \<times> bool) list" where
  "reads [] = []"
| "reads (ReadCgroups pid b # tr) = (pid, b) # reads tr"
| "reads (x # tr) = reads tr"


fun firstCached :: "(int, string) Cache option \<Rightarrow> int list \<Rightarrow> string option" where
  "firstCached None pids = None"
| "firstCached (Some c) [] = None"
| "firstCached (Some c) (pid # rest) =
     (case fst (Cache_Get c pid) of
        Some cid \<Rightarrow> Some cid
      | None \<Rightarrow> firstCached (Some c) rest)"


text \<open>A trace in which the cgroup reader found a process.\<close>

definition found :: "call list \<Rightarrow> bool" where
  "found tr = (\<exists>pid. (pid, True) \<in> set (reads tr))"





text \<open>Sample values: a world without docker, the processor built in it, and an event.\<close>

definition sampleDeps :: deps where
  "sampleDeps =
     \<lparr>common_TryToInt = (\<lambda>v. case v of VInt n \<Rightarrow> Some n | _ \<Rightarrow> None),
      common_DeDot = (\<lambda>k. k),
      safemapstr_Put = putDropped,
      DeepUpdate = (\<lambda>m u. u @ m)\<rparr>"

definition sampleConfig :: DockerConfig where
  "sampleConfig =
     \<lparr>Host = ''unix:///var/run/docker.sock'', TLS = None, MatchShortID = False,
      MatchSource = False, SourceIndex = 4, HostFS = [], DockerConfig.Fields = [],
      MatchPIDs = [''process.pid''], DeDot = True\<rparr>"

definition worldWithoutDocker :: world where
  "worldWithoutDocker =
     \<lparr>unpackConfig = Inr sampleConfig,
      watcherConstructor = (\<lambda>h t m. Inl (ErrorString ''cannot connect'')),
      watcherStart = None,
      NewExtractField = (\<lambda>i. Inl (ErrorString ''unused'')),
      initCgroupPaths = (\<lambda>h. Inl ErrCgroupsMissing)\<rparr>"

definition processorWithoutDocker :: addDockerMetadata where
  "processorWithoutDocker =
     \<lparr>watcher = None, fields' = [], sourceProcessor = None, pidFields = [''process.pid''],
      cgroups = None, dedot = True, dockerAvailable = False, cgreader = NilCGReader\<rparr>"

definition sampleEvent :: Event where
  "sampleEvent =
     \<lparr>Event.Timestamp = 3, Fields = [(''process'', VMap [(''pid'', VInt 42)])], ID = None\<rparr>"

text \<open>
  Sample values: a cgroup reader that knows process 42 in a docker cgroup and process 43
  outside any container and no other process, a processor with docker that reads the
  PID fields "pid" and "ppid", events that hold PIDs, and that processor with the
  cgroups of process 43 cached at time 2.
\<close>

definition sampleID :: string where
  "sampleID = replicate 64 (CHR ''a'')"

definition sampleReader :: "int \<Rightarrow> PathList \<times> go_error option" where
  "sampleReader pid =
     (if pid = 42 then ([''/docker/'' @ sampleID], None)
      else if pid = 43 then ([''/user.slice''], None)
      else ([], None))"

definition dockerProcessor :: addDockerMetadata where
  "dockerProcessor =
     \<lparr>watcher = Some (\<lambda>cid. None), fields' = [], sourceProcessor = None,
      pidFields = [''pid'', ''ppid''], cgroups = None, dedot = True,
      dockerAvailable = True, cgreader = sampleReader\<rparr>"




section \<open>Properties of initCheckpoint\<close>

lemma initCheckpoint_new:
  "IsNew c \<Longrightarrow>
     initCheckpoint now z c m =
       ((zeroCheckpoint z)\<lparr>Timestamp := now - m\<rparr>, [(LInfo, msgNoSavedState)])"
  by (simp add: initCheckpoint_def Add_def Before_def Let_def)

lemma initCheckpoint_failed:
  "\<not> IsNew c \<Longrightarrow> Unpack c (zeroCheckpoint z) = (Some err, cp) \<Longrightarrow>
     initCheckpoint now z c m = (cp\<lparr>Timestamp := now - m\<rparr>, [(LError, msgErrorLoading)])"
  by (simp add: initCheckpoint_def Add_def Before_def Let_def)

lemma initCheckpoint_stale:
  "\<not> IsNew c \<Longrightarrow> Unpack c (zeroCheckpoint z) = (None, cp) \<Longrightarrow> Timestamp cp < now - m \<Longrightarrow>
     initCheckpoint now z c m = (cp\<lparr>Timestamp := now - m\<rparr>, [(LWarn, msgRetentionExceeded)])"
  by (simp add: initCheckpoint_def Add_def Before_def Let_def)

lemma initCheckpoint_fresh:
  "\<not> IsNew c \<Longrightarrow> Unpack c (zeroCheckpoint z) = (None, cp) \<Longrightarrow> \<not> Timestamp cp < now - m \<Longrightarrow>
     initCheckpoint now z c m = (cp, [])"
  by (simp add: initCheckpoint_def Add_def Before_def Let_def)

lemma initCheckpoint_cases:
  obtains (new) "IsNew c"
  | (failed) err cp where "\<not> IsNew c" "Unpack c (zeroCheckpoint z) = (Some err, cp)"
  | (stale) cp where "\<not> IsNew c" "Unpack c (zeroCheckpoint z) = (None, cp)"
      "Timestamp cp < now - m"
  | (fresh) cp where "\<not> IsNew c" "Unpack c (zeroCheckpoint z) = (None, cp)"
      "\<not> Timestamp cp < now - m"
proof (cases "IsNew c")
  case True
  then show ?thesis by (rule new)
next
  case False
  obtain r cp where u: "Unpack c (zeroCheckpoint z) = (r, cp)"
    by (cases "Unpack c (zeroCheckpoint z)")
  show ?thesis
  proof (cases r)
    case None
    with False u show ?thesis
      by (cases "Timestamp cp < now - m") (auto intro: stale fresh)
  next
    case (Some err)
    with False u show ?thesis by (auto intro: failed)
  qed
qed

text \<open>
  C1 (as amended). For every cursor and every maxRetention the checkpoint that
  initCheckpoint returns has a Timestamp that is not before now - maxRetention. For a
  new cursor the Timestamp is exactly now - maxRetention and the one log call is at
  info level, the note that no state was saved: no warning and no error is logged. When
  Unpack fails the Timestamp is exactly now - maxRetention, the one log call is at
  error level, and a checkpoint is returned all the same; when a checkpoint loads with a
  Timestamp before now - maxRetention the Timestamp returned is exactly
  now - maxRetention and the one log call is the warning that events were probably lost.
\<close>

theorem C1_initCheckpoint_retention:
  "\<not> Before (Timestamp (fst (initCheckpoint now z c m))) (now - m) \<and>
   (IsNew c \<longrightarrow>
      Timestamp (fst (initCheckpoint now z c m)) = now - m \<and>
      snd (initCheckpoint now z c m) = [(LInfo, msgNoSavedState)]) \<and>
   (\<not> IsNew c \<and> fst (Unpack c (zeroCheckpoint z)) \<noteq> None \<longrightarrow>
      Timestamp (fst (initCheckpoint now z c m)) = now - m \<and>
      snd (initCheckpoint now z c m) = [(LError, msgErrorLoading)]) \<and>
   (\<not> IsNew c \<and> fst (Unpack c (zeroCheckpoint z)) = None \<and>
    Before (Timestamp (snd (Unpack c (zeroCheckpoint z)))) (now - m) \<longrightarrow>
      Timestamp (fst (initCheckpoint now z c m)) = now - m \<and>
      snd (initCheckpoint now z c m) = [(LWarn, msgRetentionExceeded)])"
proof (cases rule: initCheckpoint_cases [where c = c and z = z and now = now and m = m])
  case new
  then show ?thesis by (simp add: initCheckpoint_new Before_def)
next
  case (failed err cp)
  then show ?thesis by (simp add: initCheckpoint_failed Before_def)
next
  case (stale cp)
  then show ?thesis by (simp add: initCheckpoint_stale Before_def)
next
  case (fresh cp)
  then show ?thesis by (simp add: initCheckpoint_fresh Before_def)
qed

theorem C1_initCheckpoint_retention_witness:
  "Timestamp (fst (initCheckpoint 1000 ()
      \<lparr>IsNew = True, Unpack = (\<lambda>cp. (None, cp))\<rparr> 300)) = 700 \<and>
   Timestamp (fst (initCheckpoint 1000 ()
      \<lparr>IsNew = False, Unpack = (\<lambda>cp. (Some (ErrorString ''bad state''), cp\<lparr>Line := 4\<rparr>))\<rparr>
      300)) = 700 \<and>
   Timestamp (fst (initCheckpoint 1000 ()
      \<lparr>IsNew = False, Unpack = (\<lambda>cp. (None, cp\<lparr>Timestamp := 100, Line := 7\<rparr>))\<rparr>
      300)) = 700"
  using
    C1_initCheckpoint_retention [of 1000 "()" "\<lparr>IsNew = True, Unpack = (\<lambda>cp. (None, cp))\<rparr>" 300]
    C1_initCheckpoint_retention [of 1000 "()"
      "\<lparr>IsNew = False, Unpack = (\<lambda>cp. (Some (ErrorString ''bad state''), cp\<lparr>Line := 4\<rparr>))\<rparr>" 300]
    C1_initCheckpoint_retention [of 1000 "()"
      "\<lparr>IsNew = False, Unpack = (\<lambda>cp. (None, cp\<lparr>Timestamp := 100, Line := 7\<rparr>))\<rparr>" 300]
  by (simp add: Before_def)

text \<open>
  C1 as first stated has a warning or an error logged for a new cursor. For the new
  cursor \<open>newCursor\<close> the log of initCheckpoint is the one info entry and holds no entry
  at warning or error level.
\<close>

theorem C1_new_cursor_counterexample:
  "IsNew newCursor \<and>
   snd (initCheckpoint 1000 () newCursor 300) = [(LInfo, msgNoSavedState)] \<and>
   LWarn \<notin> set (map fst (snd (initCheckpoint 1000 () newCursor 300))) \<and>
   LError \<notin> set (map fst (snd (initCheckpoint 1000 () newCursor 300)))"
proof -
  have n: "IsNew newCursor" by (simp add: newCursor_def)
  from initCheckpoint_new [OF n, of 1000 "()" 300] n show ?thesis by simp
qed

text \<open>
  C8. initCheckpoint assigns only the Timestamp: the checkpoint it returns is the loaded
  one (the zero value for a new cursor, otherwise what Unpack left, also when Unpack
  failed) with the Timestamp replaced, so Line, StartTime and every other field are
  returned as loaded. In particular a checkpoint that loads with a Timestamp before
  now - maxRetention and a Line above zero is clamped and keeps that Line, and
  \<^verbatim>\<open>run\<close> then starts its first action from the StartTime that was loaded.
\<close>

theorem C8_initCheckpoint_frame:
  "fst (initCheckpoint now z c m) =
     (loaded z c)\<lparr>Timestamp := Timestamp (fst (initCheckpoint now z c m))\<rparr> \<and>
   Line (fst (initCheckpoint now z c m)) = Line (loaded z c) \<and>
   StartTime (fst (initCheckpoint now z c m)) = StartTime (loaded z c) \<and>
   checkpoint.more (fst (initCheckpoint now z c m)) = checkpoint.more (loaded z c) \<and>
   (\<not> IsNew c \<and> fst (Unpack c (zeroCheckpoint z)) = None \<and>
    Before (Timestamp (loaded z c)) (now - m) \<and> 0 < Line (loaded z c) \<longrightarrow>
      fst (initCheckpoint now z c m) = (loaded z c)\<lparr>Timestamp := now - m\<rparr> \<and>
      run_action now z c m =
        WithStartTime (makeListBlob ((loaded z c)\<lparr>Timestamp := now - m\<rparr>))
          (StartTime (loaded z c)))"
proof (cases rule: initCheckpoint_cases [where c = c and z = z and now = now and m = m])
  case new
  then show ?thesis by (simp add: initCheckpoint_new loaded_def)
next
  case (failed err cp)
  then show ?thesis by (simp add: initCheckpoint_failed loaded_def)
next
  case (stale cp)
  then show ?thesis
    by (simp add: initCheckpoint_stale loaded_def run_action_def Before_def)
next
  case (fresh cp)
  then show ?thesis by (simp add: initCheckpoint_fresh loaded_def Before_def)
qed

theorem C8_initCheckpoint_frame_witness:
  "fst (initCheckpoint 1000 ()
      \<lparr>IsNew = False, Unpack = (\<lambda>cp. (None, cp\<lparr>Timestamp := 100, Line := 7, StartTime := 90\<rparr>))\<rparr>
      300) = \<lparr>Timestamp = 700, Line = 7, StartTime = 90\<rparr> \<and>
   run_action 1000 ()
      \<lparr>IsNew = False, Unpack = (\<lambda>cp. (None, cp\<lparr>Timestamp := 100, Line := 7, StartTime := 90\<rparr>))\<rparr>
      300 = WithStartTime (makeListBlob \<lparr>Timestamp = 700, Line = 7, StartTime = 90\<rparr>) 90"
  using C8_initCheckpoint_frame [of 1000 "()"
      "\<lparr>IsNew = False, Unpack = (\<lambda>cp. (None, cp\<lparr>Timestamp := 100, Line := 7, StartTime := 90\<rparr>))\<rparr>"
      300]
  by (simp add: Before_def loaded_def zeroCheckpoint_def zeroTime_def)

section \<open>Properties of toBeatEvent\<close>

lemmas Put_keys =
  Put.simps [where key = "''error.message''"] Put.simps [where key = "''message''"]
  Put.simps [where key = "''event.original''"] Put.simps [where key = "''original''"]
  Put.simps [where key = "''event.kind''"] Put.simps [where key = "''kind''"]

lemmas GetValue_keys =
  GetValue.simps [where key = "''error.message''"] GetValue.simps [where key = "''message''"]
  GetValue.simps [where key = "''event.kind''"] GetValue.simps [where key = "''kind''"]
  GetValue.simps [where key = "''o365audit''"] GetValue.simps [where key = "''Id''"]
  GetValue.simps [where key = "''CreationTime''"]

text \<open>
  C3. toBeatEvent is a total function from a record (raw text and document) to one event.
  When the document's CreationTime does not parse, the event's Timestamp is the current
  time, its fields hold under "error.message" the one message
  "failed parsing CreationTime: " followed by the text of the parse error, and the
  document is still there under "o365audit": the record is not dropped.
\<close>

theorem C3_toBeatEvent_malformed_timestamp:
  "getDateKey doc ''CreationTime'' fmts = Inl err \<Longrightarrow>
     Event.Timestamp (toBeatEvent fmts now env raw doc) = now \<and>
     GetValue (Fields (toBeatEvent fmts now env raw doc)) ''error.message''
       = Inr (VStrs [''failed parsing CreationTime: '' @ Error err]) \<and>
     GetValue (Fields (toBeatEvent fmts now env raw doc)) ''o365audit'' = Inr (VMap doc)"
  by (cases "SetIDFromAuditRecord (config env)"; cases "PreserveOriginalEvent (config env)";
      cases "getString doc ''Id''")
     (simp_all add: toBeatEvent_def Let_def PutValue_def SetID_def fieldsPrefix_def Put_keys
        GetValue_keys tryToMapStr_def)

theorem C3_toBeatEvent_malformed_timestamp_witness:
  "Event.Timestamp (toBeatEvent (\<lambda>s. Inl (ErrorString ''bad date'')) 42
      \<lparr>tenantID = ''t'', contentType = ''Audit.General'',
       config = \<lparr>MaxRetention = 7, ErrorRetryInterval = 5, SetIDFromAuditRecord = True,
                 PreserveOriginalEvent = True\<rparr>\<rparr>
      ''{}'' [(''CreationTime'', VStr ''yesterday'')]) = 42 \<and>
   GetValue (Fields (toBeatEvent (\<lambda>s. Inl (ErrorString ''bad date'')) 42
      \<lparr>tenantID = ''t'', contentType = ''Audit.General'',
       config = \<lparr>MaxRetention = 7, ErrorRetryInterval = 5, SetIDFromAuditRecord = True,
                 PreserveOriginalEvent = True\<rparr>\<rparr>
      ''{}'' [(''CreationTime'', VStr ''yesterday'')])) ''error.message''
     = Inr (VStrs [''failed parsing CreationTime: bad date''])"
  using C3_toBeatEvent_malformed_timestamp
    [of "[(''CreationTime'', VStr ''yesterday'')]" "\<lambda>s. Inl (ErrorString ''bad date'')"
        "ErrorString ''bad date''" 42
        "\<lparr>tenantID = ''t'', contentType = ''Audit.General'',
          config = \<lparr>MaxRetention = 7, ErrorRetryInterval = 5, SetIDFromAuditRecord = True,
                    PreserveOriginalEvent = True\<rparr>\<rparr>"
        "''{}''"]
  by (simp add: getDateKey_def getString_def GetValue_keys)

text \<open>
  C7. The event's explicit identifier is set exactly when SetIDFromAuditRecord is on and
  the document has a field "Id" holding a non-empty string, and it is then that string;
  in every other case the event has no explicit identifier.
\<close>

theorem C7_toBeatEvent_id:
  "(ID (toBeatEvent fmts now env raw doc) = Some i) =
     (SetIDFromAuditRecord (config env) \<and> map_of doc ''Id'' = Some (VStr i) \<and> i \<noteq> []) \<and>
   (ID (toBeatEvent fmts now env raw doc) = None) =
     (\<not> SetIDFromAuditRecord (config env) \<or>
      (\<forall>j. map_of doc ''Id'' = Some (VStr j) \<longrightarrow> j = []))"
  by (auto simp add: toBeatEvent_def Let_def PutValue_def SetID_def getString_def GetValue_keys
      split: sum.splits prod.splits val.splits option.splits if_splits)

theorem C7_toBeatEvent_id_witness:
  "ID (toBeatEvent (\<lambda>s. Inr 5) 42
      \<lparr>tenantID = ''t'', contentType = ''Audit.General'',
       config = \<lparr>MaxRetention = 7, ErrorRetryInterval = 5, SetIDFromAuditRecord = True,
                 PreserveOriginalEvent = False\<rparr>\<rparr>
      ''{}'' [(''CreationTime'', VStr ''today''), (''Id'', VStr ''abc'')]) = Some ''abc'' \<and>
   ID (toBeatEvent (\<lambda>s. Inr 5) 42
      \<lparr>tenantID = ''t'', contentType = ''Audit.General'',
       config = \<lparr>MaxRetention = 7, ErrorRetryInterval = 5, SetIDFromAuditRecord = True,
                 PreserveOriginalEvent = False\<rparr>\<rparr>
      ''{}'' [(''CreationTime'', VStr ''today''), (''Id'', VInt 3)]) = None"
  using
    C7_toBeatEvent_id [of "\<lambda>s. Inr 5" 42
      "\<lparr>tenantID = ''t'', contentType = ''Audit.General'',
        config = \<lparr>MaxRetention = 7, ErrorRetryInterval = 5, SetIDFromAuditRecord = True,
                  PreserveOriginalEvent = False\<rparr>\<rparr>"
      "''{}''" "[(''CreationTime'', VStr ''today''), (''Id'', VStr ''abc'')]" "''abc''"]
    C7_toBeatEvent_id [of "\<lambda>s. Inr 5" 42
      "\<lparr>tenantID = ''t'', contentType = ''Audit.General'',
        config = \<lparr>MaxRetention = 7, ErrorRetryInterval = 5, SetIDFromAuditRecord = True,
                  PreserveOriginalEvent = False\<rparr>\<rparr>"
      "''{}''" "[(''CreationTime'', VStr ''today''), (''Id'', VInt 3)]" "''abc''"]
  by simp

section \<open>Properties of the outer loop\<close>


lemma published_append: "published (a @ b) = published a @ published b"
  by (induction a rule: published.induct) auto

lemma waits_append: "waits (a @ b) = waits a @ waits b"
  by (induction a rule: waits.induct) auto

lemma statuses_append: "statuses (a @ b) = statuses a @ statuses b"
  by (induction a rule: statuses.induct) auto


lemma Run_loop_failing:
  "\<forall>it\<in>set its. failing it \<Longrightarrow>
     Run_loop inp its tr = (None, tr @ concat (map (turn inp) its))"
  by (induction its arbitrary: tr) (auto simp: failing_def turn_def split: option.splits)

lemma Run_loop_append:
  "fst (Run_loop inp pre tr) = None \<Longrightarrow>
     Run_loop inp (pre @ its) tr = Run_loop inp its (snd (Run_loop inp pre tr))"
proof (induction pre arbitrary: tr)
  case Nil
  then show ?case by simp
next
  case (Cons it pre)
  show ?case
  proof (cases "runErr it")
    case None
    with Cons.prems show ?thesis by (simp split: if_splits)
  next
    case (Some e)
    show ?thesis
    proof (cases "cancelAtLoop it \<noteq> None \<or> errors_Is e Canceled")
      case True
      with Cons.prems Some show ?thesis by (auto split: if_splits)
    next
      case False
      with Cons.prems Some show ?thesis
        by (cases "cancelAtCase it = Some e") (auto simp add: Cons.IH)
    qed
  qed
qed

lemma published_retry: "published (retry inp it e) = [errorEvent (clock it) e]"
  by (simp add: retry_def split: option.splits)

lemma waits_retry: "waits (retry inp it e) = [ErrorRetryInterval (API (o365input.config inp))]"
  by (simp add: retry_def split: option.splits)

lemma statuses_retry: "(Degraded, Error e) \<in> set (statuses (retry inp it e))"
  by (simp add: retry_def statuses_append split: option.splits)

lemma published_turns: "published (concat (map (turn inp) its)) = map (\<lambda>it. errorEvent (clock it) (the (runErr it))) its"
  by (induction its) (auto simp: published_append published_retry turn_def)

lemma waits_turns: "waits (concat (map (turn inp) its)) = replicate (length its) (ErrorRetryInterval (API (o365input.config inp)))"
  by (induction its) (auto simp: waits_append waits_retry turn_def)

lemma statuses_turns: "it \<in> set its \<Longrightarrow> (Degraded, Error (the (runErr it))) \<in> set (statuses (concat (map (turn inp) its)))"
  by (induction its) (auto simp: statuses_append statuses_retry turn_def)

lemma errorEvent_fields:
  "GetValue (Fields (errorEvent now e)) ''event.kind'' = Inr (VStr ''pipeline_error'') \<and>
   GetValue (Fields (errorEvent now e)) ''error.message'' = Inr (VStr (Error e))"
  by (simp add: errorEvent_def Let_def Put_keys GetValue_keys tryToMapStr_def)


lemma Run_failing: "\<forall>it\<in>set its. failing it \<Longrightarrow>
  Run inp (StreamSource s) its = (None, UpdateStatus Starting [] # concat (map (turn inp) its))"
  by (simp add: Run_def Run_loop_failing)

text \<open>
  C2. A cancellation error is an error that is or wraps context.Canceled, or that is the
  error the cancellation context reports when the switch compares them. For every
  sequence of turns in which the context is not done and inp.run returns an error that
  is neither nil nor a cancellation error, Run has not returned after the last of them
  (it retries without a bound on the attempts), and in each turn, in this order, it has
  called inp.run, published exactly one event whose fields hold event.kind =
  "pipeline_error" and error.message = the text of the error, reported Degraded with
  that text, and waited the configured error-retry interval before entering the loop
  again. Once the context is done at the loop condition Run returns nil and does
  nothing more.
\<close>

theorem C2_Run_degraded_retry:
  assumes "\<forall>it\<in>set its. failing it"
  shows "Run inp (StreamSource s) its =
           (None, UpdateStatus Starting [] # concat (map (turn inp) its)) \<and>
         published (snd (Run inp (StreamSource s) its)) =
           map (\<lambda>it. errorEvent (clock it) (the (runErr it))) its \<and>
         (\<forall>it\<in>set its.
            GetValue (Fields (errorEvent (clock it) (the (runErr it)))) ''event.kind''
              = Inr (VStr ''pipeline_error'') \<and>
            GetValue (Fields (errorEvent (clock it) (the (runErr it)))) ''error.message''
              = Inr (VStr (Error (the (runErr it)))) \<and>
            (Degraded, Error (the (runErr it)))
              \<in> set (statuses (snd (Run inp (StreamSource s) its)))) \<and>
         waits (snd (Run inp (StreamSource s) its)) =
           replicate (length its) (ErrorRetryInterval (API (o365input.config inp))) \<and>
         (\<forall>fin rest. cancelAtLoop fin \<noteq> None \<longrightarrow>
            Run inp (StreamSource s) (its @ fin # rest) =
              (Some None, snd (Run inp (StreamSource s) its)))"
proof -
  have r: "Run inp (StreamSource s) its =
      (None, UpdateStatus Starting [] # concat (map (turn inp) its))"
    using assms by (rule Run_failing)
  have stop: "Run inp (StreamSource s) (its @ fin # rest) =
      (Some None, snd (Run inp (StreamSource s) its))"
    if "cancelAtLoop fin \<noteq> None" for fin rest
  proof -
    have "fst (Run_loop inp its [UpdateStatus Starting []]) = None"
      using assms by (simp add: Run_loop_failing)
    then show ?thesis
      using that by (simp add: Run_def Run_loop_append)
  qed
  show ?thesis
    using r stop
    by (simp add: published_turns waits_turns statuses_turns errorEvent_fields)
qed


theorem C2_Run_degraded_retry_witness:
  "fst (Run sampleInput (StreamSource sampleStream) [turnBoom, turnDeadline]) = None \<and>
   waits (snd (Run sampleInput (StreamSource sampleStream) [turnBoom, turnDeadline]))
     = [30, 30] \<and>
   fst (Run sampleInput (StreamSource sampleStream) ([turnBoom, turnDeadline] @ [turnDone]))
     = Some None"
proof -
  have h: "\<forall>it\<in>set [turnBoom, turnDeadline]. failing it"
    by (simp add: failing_def turnBoom_def turnDeadline_def)
  have d: "cancelAtLoop turnDone \<noteq> None"
    by (simp add: turnDone_def)
  note c = C2_Run_degraded_retry [OF h, of sampleInput sampleStream]
  from c have "fst (Run sampleInput (StreamSource sampleStream) [turnBoom, turnDeadline]) = None"
    by simp
  moreover from c
  have "waits (snd (Run sampleInput (StreamSource sampleStream) [turnBoom, turnDeadline]))
      = replicate (length [turnBoom, turnDeadline])
          (ErrorRetryInterval (API (o365input.config sampleInput)))"
    by blast
  moreover from c d
  have "Run sampleInput (StreamSource sampleStream) ([turnBoom, turnDeadline] @ turnDone # [])
      = (Some None, snd (Run sampleInput (StreamSource sampleStream) [turnBoom, turnDeadline]))"
    by blast
  ultimately show ?thesis
    by (simp add: sampleInput_def)
qed

lemma statuses_retry_last:
  "\<exists>ms. statuses (retry inp it e) = ms @ [(Degraded, Error e)] \<and> (\<forall>m\<in>set ms. fst m = Degraded)"
  by (simp add: retry_def split: option.splits)

text \<open>
  C4 (as amended). When Run is still looping and inp.run returns nil, or an error that
  is or wraps context.Canceled, Run returns nil at once: after the call of inp.run there
  is no publish, no status update, no log call and no wait, whatever the turns that
  would have followed. An error that is neither of these, and is not the error that the
  cancellation context reports, takes the retry path: Run publishes one more event, the
  one with event.kind = "pipeline_error" and error.message = the text of the error, its
  last status report is Degraded with that text, it waits the error-retry interval once
  more, and it keeps looping. An error that is not context.Canceled but is the error the
  cancellation context reports is dropped: after the call of inp.run nothing is
  published, reported or waited for, and Run returns nil when the loop condition next
  finds the context done.
\<close>

theorem C4_Run_returns:
  assumes "fst (Run inp (StreamSource s) pre) = None"
  shows "(finished it \<longrightarrow>
           Run inp (StreamSource s) (pre @ it # rest) =
             (Some None, snd (Run inp (StreamSource s) pre) @ [CallRun])) \<and>
         (failing it \<longrightarrow>
           fst (Run inp (StreamSource s) (pre @ [it])) = None \<and>
           published (snd (Run inp (StreamSource s) (pre @ [it]))) =
             published (snd (Run inp (StreamSource s) pre))
               @ [errorEvent (clock it) (the (runErr it))] \<and>
           GetValue (Fields (errorEvent (clock it) (the (runErr it)))) ''event.kind''
             = Inr (VStr ''pipeline_error'') \<and>
           GetValue (Fields (errorEvent (clock it) (the (runErr it)))) ''error.message''
             = Inr (VStr (Error (the (runErr it)))) \<and>
           last (statuses (snd (Run inp (StreamSource s) (pre @ [it]))))
             = (Degraded, Error (the (runErr it))) \<and>
           waits (snd (Run inp (StreamSource s) (pre @ [it]))) =
             waits (snd (Run inp (StreamSource s) pre))
               @ [ErrorRetryInterval (API (o365input.config inp))]) \<and>
         (dropped it \<longrightarrow>
           Run inp (StreamSource s) (pre @ [it]) =
             (None, snd (Run inp (StreamSource s) pre) @ [CallRun]) \<and>
           (cancelAtLoop fin \<noteq> None \<longrightarrow>
              Run inp (StreamSource s) (pre @ it # fin # rest) =
                (Some None, snd (Run inp (StreamSource s) pre) @ [CallRun])))"
proof -
  have p: "fst (Run_loop inp pre [UpdateStatus Starting []]) = None"
    using assms by (simp add: Run_def)
  have a: "Run inp (StreamSource s) (pre @ xs) =
      Run_loop inp xs (snd (Run inp (StreamSource s) pre))" for xs
    using p by (simp add: Run_def Run_loop_append)
  have one: "Run inp (StreamSource s) (pre @ it # rest) =
      (Some None, snd (Run inp (StreamSource s) pre) @ [CallRun])" if "finished it"
    using that by (cases "runErr it") (simp_all add: a finished_def)
  have two: "Run inp (StreamSource s) (pre @ [it]) =
      (None, snd (Run inp (StreamSource s) pre) @ CallRun # retry inp it (the (runErr it)))"
    if "failing it"
    using that by (cases "runErr it") (simp_all add: a failing_def)
  have three: "Run inp (StreamSource s) (pre @ [it]) =
      (None, snd (Run inp (StreamSource s) pre) @ [CallRun]) \<and>
    (cancelAtLoop fin \<noteq> None \<longrightarrow>
      Run inp (StreamSource s) (pre @ it # fin # rest) =
        (Some None, snd (Run inp (StreamSource s) pre) @ [CallRun]))"
    if "dropped it"
  proof -
    from that obtain e where e: "cancelAtLoop it = None" "runErr it = Some e"
      "\<not> errors_Is e Canceled" "cancelAtCase it = Some e"
      by (cases "runErr it") (simp_all add: dropped_def)
    then show ?thesis by (simp add: a)
  qed
  obtain ms where ms: "statuses (retry inp it (the (runErr it)))
      = ms @ [(Degraded, Error (the (runErr it)))]"
    using statuses_retry_last by blast
  have l: "last (statuses (snd (Run inp (StreamSource s) pre)
      @ CallRun # retry inp it (the (runErr it)))) = (Degraded, Error (the (runErr it)))"
    by (simp add: statuses_append ms)
  show ?thesis
    using one two three l
    by (simp add: published_append published_retry waits_append waits_retry errorEvent_fields)
qed

theorem C4_Run_returns_witness:
  "Run sampleInput (StreamSource sampleStream) ([turnBoom] @ turnCanceled # [turnDeadline])
     = (Some None, snd (Run sampleInput (StreamSource sampleStream) [turnBoom]) @ [CallRun]) \<and>
   waits (snd (Run sampleInput (StreamSource sampleStream) ([turnBoom] @ [turnDeadline])))
     = waits (snd (Run sampleInput (StreamSource sampleStream) [turnBoom])) @ [30] \<and>
   Run sampleInput (StreamSource sampleStream)
       ([turnBoom] @ turnContextDeadline # turnDone # [])
     = (Some None, snd (Run sampleInput (StreamSource sampleStream) [turnBoom]) @ [CallRun])"
proof -
  have p: "fst (Run sampleInput (StreamSource sampleStream) [turnBoom]) = None"
    by (simp add: Run_def turnBoom_def)
  have f: "finished turnCanceled"
    by (simp add: finished_def turnCanceled_def)
  have g: "failing turnDeadline"
    by (simp add: failing_def turnDeadline_def)
  have h: "dropped turnContextDeadline"
    by (simp add: dropped_def turnContextDeadline_def)
  have c: "cancelAtLoop turnDone \<noteq> None"
    by (simp add: turnDone_def)
  from C4_Run_returns [OF p, of turnCanceled "[turnDeadline]"] f
  have "Run sampleInput (StreamSource sampleStream) ([turnBoom] @ turnCanceled # [turnDeadline])
     = (Some None, snd (Run sampleInput (StreamSource sampleStream) [turnBoom]) @ [CallRun])"
    by blast
  moreover from C4_Run_returns [OF p, of turnDeadline] g
  have "waits (snd (Run sampleInput (StreamSource sampleStream) ([turnBoom] @ [turnDeadline])))
     = waits (snd (Run sampleInput (StreamSource sampleStream) [turnBoom]))
         @ [ErrorRetryInterval (API (o365input.config sampleInput))]"
    by blast
  moreover from C4_Run_returns [OF p, of turnContextDeadline "[]" turnDone] h c
  have "Run sampleInput (StreamSource sampleStream)
       ([turnBoom] @ turnContextDeadline # turnDone # [])
     = (Some None, snd (Run sampleInput (StreamSource sampleStream) [turnBoom]) @ [CallRun])"
    by blast
  ultimately show ?thesis
    by (simp add: sampleInput_def)
qed

text \<open>
  C4 as first stated sends every error other than nil and context.Canceled to the retry
  path. In the turn \<open>turnContextDeadline\<close> inp.run returns the deadline error, which is
  not context.Canceled, while the cancellation context reports that same error: Run
  publishes nothing, reports no Degraded status, does not wait, and returns nil.
\<close>

theorem C4_dropped_counterexample:
  "runErr turnContextDeadline = Some DeadlineExceeded \<and>
   \<not> errors_Is DeadlineExceeded Canceled \<and>
   Run sampleInput (StreamSource sampleStream) [turnContextDeadline, turnDone]
     = (Some None, [UpdateStatus Starting [], CallRun]) \<and>
   published (snd (Run sampleInput (StreamSource sampleStream) [turnContextDeadline, turnDone]))
     = [] \<and>
   Degraded \<notin> set (map fst (statuses
     (snd (Run sampleInput (StreamSource sampleStream) [turnContextDeadline, turnDone])))) \<and>
   waits (snd (Run sampleInput (StreamSource sampleStream) [turnContextDeadline, turnDone]))
     = []"
  by (simp add: Run_def turnContextDeadline_def turnDone_def)

section \<open>Properties of the cache\<close>


lemma apply_op_params:
  "timeout (apply_op c op) = timeout c \<and> capacity (apply_op c op) = capacity c \<and>
   janitor (apply_op c op) = janitor c"
  by (cases op) (simp_all add: Cache_Put_def Cache_Get_def janitorRun_def CleanUp_def Let_def)

lemma run_ops_params:
  "timeout (run_ops c ops) = timeout c \<and> capacity (run_ops c ops) = capacity c \<and>
   janitor (run_ops c ops) = janitor c"
  unfolding run_ops_def
  by (induction ops arbitrary: c) (simp_all add: apply_op_params)

lemma distinct_keys_filter: "distinct (map fst es) \<Longrightarrow> distinct (map fst (filter P es))"
  by (simp add: distinct_map_filter)

lemma distinct_keys_take: "distinct (map fst es) \<Longrightarrow> distinct (map fst (take n es))"
  by (simp add: take_map [symmetric] distinct_take)

lemma apply_op_distinct:
  "distinct (map fst (elements c)) \<Longrightarrow> distinct (map fst (elements (apply_op c op)))"
  by (cases op)
     (auto simp add: Cache_Put_def Cache_Get_def janitorRun_def CleanUp_def Let_def
        distinct_keys_filter distinct_keys_take)

lemma run_ops_distinct:
  "distinct (map fst (elements c)) \<Longrightarrow> distinct (map fst (elements (run_ops c ops)))"
  unfolding run_ops_def
  by (induction ops arbitrary: c) (simp_all add: apply_op_distinct)

lemma apply_op_head:
  assumes "elements c = (k, v, t0) # es" "within t0 (timeout c) op" "0 < capacity c"
  shows "\<exists>es'. elements (apply_op c op) = (k, v, t0) # es'"
  using assms
  by (cases op) (auto simp add: Cache_Get_def janitorRun_def CleanUp_def Let_def expired_def
       take_Cons')

lemma run_ops_head:
  assumes "\<forall>op\<in>set mid. within t0 (timeout c) op" "0 < capacity c" "elements c = (k, v, t0) # es"
  shows "\<exists>es'. elements (run_ops c mid) = (k, v, t0) # es'"
  using assms
proof (induction mid arbitrary: c es)
  case Nil
  then show ?case by (simp add: run_ops_def)
next
  case (Cons op mid)
  from Cons.prems obtain es1 where e1: "elements (apply_op c op) = (k, v, t0) # es1"
    using apply_op_head [of c k v t0 es op] by auto
  have "\<exists>es'. elements (run_ops (apply_op c op) mid) = (k, v, t0) # es'"
    using Cons.prems e1 by (intro Cons.IH [of "apply_op c op" es1]) (simp_all add: apply_op_params)
  then show ?case by (simp add: run_ops_def)
qed


lemma no_key_filter_map:
  "k \<notin> fst ` set xs \<Longrightarrow> filter (\<lambda>e. fst e = k) (map (\<lambda>e. (fst e, fst (snd e))) xs) = []"
  by (induction xs) auto

lemma CleanUp_evicts:
  assumes "elements c = (k, v, t0) # es" "distinct (map fst (elements c))" "timeout c < t1 - t0"
  shows "filter (\<lambda>e. fst e = k) (fst (CleanUp c t1)) = [(k, v)]"
    and "map_of (elements (snd (CleanUp c t1))) k = None"
proof -
  from assms(1,2) have nk: "k \<notin> fst ` set es" by auto
  have a: "k \<notin> fst ` set (filter (expired c t1) es)"
    using nk by auto
  have b: "k \<notin> fst ` set (drop (capacity c) (filter (\<lambda>e. \<not> expired c t1 e) es))"
    using nk by (force dest!: in_set_dropD)
  have c: "k \<notin> fst ` set (take (capacity c) (filter (\<lambda>e. \<not> expired c t1 e) es))"
    using nk by (force dest!: in_set_takeD)
  show "filter (\<lambda>e. fst e = k) (fst (CleanUp c t1)) = [(k, v)]"
    using assms(1,3) a b
    by (simp add: CleanUp_def Let_def expired_def no_key_filter_map)
  show "map_of (elements (snd (CleanUp c t1))) k = None"
    using assms(1,3) c
    by (simp add: CleanUp_def Let_def expired_def map_of_eq_None_iff)
qed

lemma newCgroupCache_fields:
  "timeout newCgroupCache = cgroupCacheExpiration" "capacity newCgroupCache = 100"
  "janitor newCgroupCache = Some (5 * Second)" "elements newCgroupCache = []"
  by (simp_all add: newCgroupCache_def StartJanitor_def NewCacheWithRemovalListener_def)

lemma afterPut_facts:
  assumes "\<forall>op\<in>set mid. within t0 cgroupCacheExpiration op"
  shows "\<exists>es. elements (afterPut ops t0 k v mid) = (k, v, t0) # es"
    and "distinct (map fst (elements (afterPut ops t0 k v mid)))"
    and "timeout (afterPut ops t0 k v mid) = cgroupCacheExpiration"
    and "janitor (afterPut ops t0 k v mid) = Some (5 * Second)"
proof -
  let ?c = "run_ops newCgroupCache ops"
  let ?p = "Cache_Put ?c t0 k v"
  have par: "timeout ?p = cgroupCacheExpiration" "capacity ?p = 100" "janitor ?p = Some (5 * Second)"
    by (simp_all add: Cache_Put_def run_ops_params newCgroupCache_fields)
  have d0: "distinct (map fst (elements ?c))"
    by (rule run_ops_distinct) (simp add: newCgroupCache_fields)
  have dp: "distinct (map fst (elements ?p))"
    using apply_op_distinct [OF d0, of "OpPut t0 k v"] by simp
  have hd: "elements ?p = (k, v, t0) # filter (\<lambda>e. fst e \<noteq> k) (elements ?c)"
    by (simp add: Cache_Put_def)
  show "\<exists>es. elements (afterPut ops t0 k v mid) = (k, v, t0) # es"
    unfolding afterPut_def
    using assms par hd by (intro run_ops_head) simp_all
  show "distinct (map fst (elements (afterPut ops t0 k v mid)))"
    unfolding afterPut_def by (rule run_ops_distinct) (rule dp)
  show "timeout (afterPut ops t0 k v mid) = cgroupCacheExpiration"
    "janitor (afterPut ops t0 k v mid) = Some (5 * Second)"
    unfolding afterPut_def by (simp_all add: run_ops_params par)
qed

text \<open>
  C5. For the cache that the processor builds (time-to-live five minutes, capacity 100,
  janitor every five seconds), after any history: once Put(k, v) has run at time t0,
  and as long as the operations that follow are reads and turns of the janitor no later
  than t0 plus the time-to-live, Get(k) returns v. Get returns the cache as it was, so a
  read does not renew the entry: at its first turn later than t0 plus the time-to-live
  the janitor calls the removal listener exactly once for k, with the value v, and
  after that turn Get(k) finds nothing, however many reads of k came before.
\<close>

theorem C5_cache_ttl:
  assumes "\<forall>op\<in>set mid. within t0 cgroupCacheExpiration op"
  shows "fst (Cache_Get (afterPut ops t0 k v mid) k) = Some v \<and>
         snd (Cache_Get (afterPut ops t0 k v mid) k) = afterPut ops t0 k v mid \<and>
         (cgroupCacheExpiration < t1 - t0 \<longrightarrow>
            filter (\<lambda>e. fst e = k) (fst (janitorRun (afterPut ops t0 k v mid) t1)) = [(k, v)] \<and>
            fst (Cache_Get (snd (janitorRun (afterPut ops t0 k v mid) t1)) k) = None)"
proof -
  from afterPut_facts [OF assms, of ops k v]
  obtain es where e: "elements (afterPut ops t0 k v mid) = (k, v, t0) # es"
    and d: "distinct (map fst (elements (afterPut ops t0 k v mid)))"
    and t: "timeout (afterPut ops t0 k v mid) = cgroupCacheExpiration"
    and j: "janitor (afterPut ops t0 k v mid) = Some (5 * Second)"
    by blast
  have g: "fst (Cache_Get (afterPut ops t0 k v mid) k) = Some v"
    using e by (simp add: Cache_Get_def)
  have s: "snd (Cache_Get (afterPut ops t0 k v mid) k) = afterPut ops t0 k v mid"
    by (simp add: Cache_Get_def)
  have x: "filter (\<lambda>e. fst e = k) (fst (janitorRun (afterPut ops t0 k v mid) t1)) = [(k, v)] \<and>
      fst (Cache_Get (snd (janitorRun (afterPut ops t0 k v mid) t1)) k) = None"
    if "cgroupCacheExpiration < t1 - t0"
    using CleanUp_evicts [OF e d, of t1] that t j
    by (simp add: janitorRun_def Cache_Get_def)
  from g s x show ?thesis by blast
qed

theorem C5_cache_ttl_witness:
  "fst (Cache_Get (afterPut [OpPut 0 1 ''x''] 10 (7::int) ''abc'' [OpGet 7, OpJanitor 100]) 7)
     = Some ''abc'' \<and>
   filter (\<lambda>e. fst e = 7)
     (fst (janitorRun (afterPut [OpPut 0 1 ''x''] 10 (7::int) ''abc'' [OpGet 7, OpJanitor 100])
        300000000011)) = [(7, ''abc'')] \<and>
   fst (Cache_Get
     (snd (janitorRun (afterPut [OpPut 0 1 ''x''] 10 (7::int) ''abc'' [OpGet 7, OpJanitor 100])
        300000000011)) 7) = None"
proof -
  have h: "\<forall>op\<in>set [OpGet (7::int), OpJanitor 100 :: (int, string) cache_op].
      within 10 cgroupCacheExpiration op"
    by (simp add: cgroupCacheExpiration_def Minute_def Second_def)
  have l: "cgroupCacheExpiration < 300000000011 - 10"
    by (simp add: cgroupCacheExpiration_def Minute_def Second_def)
  from C5_cache_ttl [OF h, of "[OpPut 0 1 ''x'']" 7 "''abc''" 300000000011] l
  show ?thesis by blast
qed

section \<open>Properties of the processor\<close>


text \<open>
  C10. When the watcher constructor failed while the processor was built, the processor
  has dockerAvailable unset, and Run returns the event it was given, with a nil error:
  the event is the same in every field, the processor is as it was, and no call is made
  to the outside (no log call, no cache, cgroup or watcher lookup). The same holds for
  every later call.
\<close>

theorem C10_Run_without_docker:
  assumes "buildDockerMetadataProcessor w = Inr d"
    and "unpackConfig w = Inr cfg"
    and "watcherConstructor w (Host cfg) (TLS cfg) (MatchShortID cfg) = Inl err"
  shows "\<not> dockerAvailable d \<and>
         addDockerMetadata_Run now dp d event = (Returns (Some event) None, d, []) \<and>
         RunAll dp d [(now, event), (now2, event2)] = (d, [])"
proof -
  have "\<not> dockerAvailable d"
    using assms
    by (auto simp add: buildDockerMetadataProcessor_def split: sum.splits if_splits)
  then show ?thesis
    by (simp add: addDockerMetadata_Run_def)
qed

theorem C10_Run_without_docker_witness:
  "addDockerMetadata_Run 5 sampleDeps processorWithoutDocker sampleEvent
     = (Returns (Some sampleEvent) None, processorWithoutDocker, [])"
proof -
  have b: "buildDockerMetadataProcessor worldWithoutDocker = Inr processorWithoutDocker"
    by (simp add: buildDockerMetadataProcessor_def worldWithoutDocker_def sampleConfig_def
          processorWithoutDocker_def)
  have u: "unpackConfig worldWithoutDocker = Inr sampleConfig"
    by (simp add: worldWithoutDocker_def)
  have c: "watcherConstructor worldWithoutDocker (Host sampleConfig) (TLS sampleConfig)
      (MatchShortID sampleConfig) = Inl (ErrorString ''cannot connect'')"
    by (simp add: worldWithoutDocker_def)
  from C10_Run_without_docker [OF b u c, of 5 sampleDeps sampleEvent] show ?thesis by blast
qed

subsection \<open>The lookup by PID\<close>






















subsection \<open>The cache field across calls of Run\<close>








subsection \<open>The sample processor\<close>







lemma not_missing_42: "\<not> missing dockerProcessor 42"
  by (simp add: missing_def getProcessCgroups_def dockerProcessor_def sampleReader_def)













subsection \<open>What the lookup reads and caches\<close>



lemma firstCached_hd:
  "fst (Cache_Get c p) = Some cid \<Longrightarrow> firstCached (Some c) (p # others) = Some cid"
  by simp
















end
